theory Spec2Isabelle
  imports Complex_Main
begin

section \<open>Order intake: data model\<close>

text \<open>
  The development follows \<^verbatim>\<open>src/routes/orders.js\<close> (the handler of
  \<^verbatim>\<open>POST /orders\<close> and its helper \<^verbatim>\<open>calculateTileQuantity\<close>) and the SQL
  function \<^verbatim>\<open>update_product_stock\<close> of the migrations.

  Numbers. A JavaScript number that arrives in a JSON document or in a database row is
  finite; it is modelled by an exact rational. The arithmetic of the handler is carried
  out exactly: the rounding of IEEE doubles, their overflow and their underflow are outside
  this model. The one place where JavaScript leaves the finite numbers by itself, a
  division by zero, is kept: \<open>NonFinite\<close> stands for \<^verbatim>\<open>Infinity\<close>,
  \<^verbatim>\<open>-Infinity\<close> and \<^verbatim>\<open>NaN\<close>, which JSON serialises alike (as \<^verbatim>\<open>null\<close>).
\<close>

datatype jsnum = Num rat | NonFinite

type_synonym uuid = string

text \<open>
  A row of table \<^verbatim>\<open>products\<close>, with the columns the pipeline reads or writes.
  \<^verbatim>\<open>length_mm\<close> and \<^verbatim>\<open>width_mm\<close> are \<^verbatim>\<open>numeric\<close>, \<^verbatim>\<open>box_moq\<close> and
  \<^verbatim>\<open>stock\<close> are \<^verbatim>\<open>integer\<close>; none of them is declared \<^verbatim>\<open>NOT NULL\<close>, so
  \<open>None\<close> is SQL \<^verbatim>\<open>NULL\<close>.
\<close>

record product =
  prod_id :: uuid
  length_mm :: "rat option"
  width_mm :: "rat option"
  box_moq :: "int option"
  stock :: "int option"

text \<open>
  A cart line \<^verbatim>\<open>{product_id, quantity, coverage}\<close>. \<open>None\<close> is a field that is
  not there. The requested coverage is a JSON number; the quantity is one too until
  resolution overwrites it with what \<^verbatim>\<open>calculateTileQuantity\<close> returns.
\<close>

record item =
  product_id :: uuid
  quantity :: "jsnum option"
  coverage :: "rat option"

section \<open>Quantity resolution\<close>

text \<open>JavaScript \<^verbatim>\<open>/\<close>, \<^verbatim>\<open>*\<close> and \<^verbatim>\<open>Math.ceil\<close> with a finite right operand.\<close>

fun js_div :: "jsnum \<Rightarrow> rat \<Rightarrow> jsnum" where
  "js_div (Num a) b = (if b = 0 then NonFinite else Num (a / b))"
| "js_div NonFinite b = NonFinite"

fun js_mul :: "jsnum \<Rightarrow> rat \<Rightarrow> jsnum" where
  "js_mul (Num a) b = Num (a * b)"
| "js_mul NonFinite b = NonFinite"

fun js_ceil :: "jsnum \<Rightarrow> jsnum" where
  "js_ceil (Num a) = Num (of_int \<lceil>a\<rceil>)"
| "js_ceil NonFinite = NonFinite"

text \<open>
  \<^verbatim>\<open>
  const calculateTileQuantity = (length, width, coverage, boxMoq = 1) => {
    const tileArea = (length * width) / (1000 * 1000) * 10.764;
    const piecesNeeded = Math.ceil(coverage / tileArea);
    return boxMoq > 1 ? Math.ceil(piecesNeeded / boxMoq) * boxMoq : piecesNeeded;
  };
  \<close>
  The default of \<^verbatim>\<open>boxMoq\<close> applies to \<^verbatim>\<open>undefined\<close> only; the handler passes the
  selected column, which is an integer or \<^verbatim>\<open>null\<close>, and \<^verbatim>\<open>null > 1\<close> is false.
\<close>

definition tileArea :: "rat \<Rightarrow> rat \<Rightarrow> rat" where
  "tileArea length' width = (length' * width) / (1000 * 1000) * (10764 / 1000)"

definition calculateTileQuantity :: "rat \<Rightarrow> rat \<Rightarrow> rat \<Rightarrow> int option \<Rightarrow> jsnum" where
  "calculateTileQuantity length' width coverage' boxMoq =
     (let piecesNeeded = js_ceil (js_div (Num coverage') (tileArea length' width))
      in case boxMoq of
           None \<Rightarrow> piecesNeeded
         | Some m \<Rightarrow>
             if 1 < m then js_mul (js_ceil (js_div piecesNeeded (of_int m))) (of_int m)
             else piecesNeeded)"

text \<open>
  The callback of \<^verbatim>\<open>items.map\<close> that builds \<^verbatim>\<open>adjustedItems\<close>:
  \<^verbatim>\<open>
  const product = products.find(p => p.id === item.product_id);
  if (product && item.coverage && product.length_mm && product.width_mm) {
    return { ...item, quantity: calculateTileQuantity(product.length_mm,
               product.width_mm, item.coverage, product.box_moq) };
  }
  return item;
  \<close>
  The test is JavaScript truthiness: a field that is \<^verbatim>\<open>null\<close>, not there or
  \<^verbatim>\<open>0\<close> is falsy, every other number (a negative one too) is truthy.
\<close>

definition adjust_item :: "product list \<Rightarrow> item \<Rightarrow> item" where
  "adjust_item products it =
     (case find (\<lambda>p. prod_id p = product_id it) products of
        None \<Rightarrow> it
      | Some product \<Rightarrow>
          (case (coverage it, length_mm product, width_mm product) of
             (Some c, Some l, Some w) \<Rightarrow>
               if c \<noteq> 0 \<and> l \<noteq> 0 \<and> w \<noteq> 0
               then it\<lparr>quantity := Some (calculateTileQuantity l w c (box_moq product))\<rparr>
               else it
           | _ \<Rightarrow> it))"

definition adjustedItems :: "product list \<Rightarrow> item list \<Rightarrow> item list" where
  "adjustedItems products items = map (adjust_item products) items"

section \<open>The stock store\<close>

text \<open>
  \<^verbatim>\<open>
  CREATE OR REPLACE FUNCTION update_product_stock(p_product_id uuid, p_quantity integer)
  RETURNS void AS $$
  BEGIN
    UPDATE products SET stock = stock - p_quantity
    WHERE id = p_product_id AND stock >= p_quantity;
    IF NOT FOUND THEN
      RAISE EXCEPTION 'Insufficient stock for product %', p_product_id;
    END IF;
  END;
  \<close>
  The function returns the error it raises, if any, and the table. A raised error aborts
  the statement: the table is the one before the call. A \<^verbatim>\<open>NULL\<close> stock fails the
  comparison. The subtraction is on type \<^verbatim>\<open>integer\<close>, where a result above
  \<open>2147483647\<close> raises (it does not wrap).
\<close>

datatype stock_error = Insufficient_stock uuid | Integer_out_of_range | Invalid_argument

definition int4_max :: int where
  "int4_max = 2147483647"

definition int4_min :: int where
  "int4_min = - 2147483648"

definition row_matches :: "uuid \<Rightarrow> int \<Rightarrow> product \<Rightarrow> bool" where
  "row_matches p_product_id p_quantity p =
     (prod_id p = p_product_id \<and>
      (case stock p of None \<Rightarrow> False | Some s \<Rightarrow> p_quantity \<le> s))"

definition row_overflows :: "int \<Rightarrow> product \<Rightarrow> bool" where
  "row_overflows p_quantity p =
     (case stock p of None \<Rightarrow> False | Some s \<Rightarrow> int4_max < s - p_quantity)"

definition decrement_row :: "int \<Rightarrow> product \<Rightarrow> product" where
  "decrement_row p_quantity p = p\<lparr>stock := map_option (\<lambda>s. s - p_quantity) (stock p)\<rparr>"

definition update_product_stock ::
  "product list \<Rightarrow> uuid \<Rightarrow> int \<Rightarrow> stock_error option \<times> product list" where
  "update_product_stock products p_product_id p_quantity =
     (let found = filter (row_matches p_product_id p_quantity) products in
      if list_ex (row_overflows p_quantity) found then (Some Integer_out_of_range, products)
      else if found = [] then (Some (Insufficient_stock p_product_id), products)
      else (None,
            map (\<lambda>p. if row_matches p_product_id p_quantity p
                     then decrement_row p_quantity p else p) products))"

text \<open>
  The call \<^verbatim>\<open>supabase.rpc('update_product_stock', {p_product_id, p_quantity: item.quantity})\<close>.
  The argument is sent as JSON to a parameter of type \<^verbatim>\<open>integer\<close>: a number
  with a fractional part or outside the range of \<^verbatim>\<open>integer\<close>, and a missing
  argument, are refused before the function runs; \<^verbatim>\<open>null\<close> (what JSON makes of a
  non-finite number) reaches the function, where no row passes the comparison.
\<close>

fun rpc_update_product_stock ::
  "product list \<Rightarrow> uuid \<Rightarrow> jsnum option \<Rightarrow> stock_error option \<times> product list" where
  "rpc_update_product_stock products pid None = (Some Invalid_argument, products)"
| "rpc_update_product_stock products pid (Some NonFinite) =
     (Some (Insufficient_stock pid), products)"
| "rpc_update_product_stock products pid (Some (Num r)) =
     (if of_int \<lfloor>r\<rfloor> = r \<and> of_int int4_min \<le> r \<and> r \<le> of_int int4_max
      then update_product_stock products pid \<lfloor>r\<rfloor>
      else (Some Invalid_argument, products))"

text \<open>
  The loop over \<^verbatim>\<open>adjustedItems\<close>: one call per line, in order; the first error
  leaves the loop (the handler cancels the order and throws).
\<close>

fun stock_loop :: "product list \<Rightarrow> item list \<Rightarrow> stock_error option \<times> product list" where
  "stock_loop products [] = (None, products)"
| "stock_loop products (it # its) =
     (case rpc_update_product_stock products (product_id it) (quantity it) of
        (Some stockError, products') \<Rightarrow> (Some stockError, products')
      | (None, products') \<Rightarrow> stock_loop products' its)"

section \<open>Request validation\<close>

text \<open>
  The request body \<^verbatim>\<open>{items, totalAmount, shippingAddress}\<close>. \<open>None\<close> is a
  field that is not there (for \<open>items\<close>: not there or not an array; for
  \<open>shippingAddress\<close>: not there or not an object). Numeric fields are JSON numbers. A
  member of the address that is not there is the empty string, which the validator treats
  alike.
\<close>

record shipping_address =
  street :: string
  city :: string
  state :: string
  zipCode :: string

record order_body =
  items :: "item list option"
  totalAmount :: "rat option"
  shippingAddress :: "shipping_address option"

text \<open>
  The validators of \<^verbatim>\<open>express-validator\<close> that the chain uses, on these values.
  They test the value printed as a string: \<^verbatim>\<open>isInt({min: 1})\<close> wants an integer
  numeral (a number from \<open>10\<^sup>2\<^sup>1\<close> on prints with an exponent and is refused) that is
  at least 1, \<^verbatim>\<open>isFloat({min: 0})\<close> a number that is at least 0. A field that is
  not there prints as the empty string and fails both; \<^verbatim>\<open>optional()\<close> skips the
  validators that follow it when the field is not there.
\<close>

fun isInt_min_1 :: "jsnum option \<Rightarrow> bool" where
  "isInt_min_1 (Some (Num r)) = (of_int \<lfloor>r\<rfloor> = r \<and> 1 \<le> r \<and> r < 10 ^ 21)"
| "isInt_min_1 _ = False"

fun isFloat_min_0 :: "rat option \<Rightarrow> bool" where
  "isFloat_min_0 (Some r) = (0 \<le> r)"
| "isFloat_min_0 None = False"

fun optional_isFloat_min_0 :: "rat option \<Rightarrow> bool" where
  "optional_isFloat_min_0 None = True"
| "optional_isFloat_min_0 (Some r) = isFloat_min_0 (Some r)"

definition notEmpty :: "string \<Rightarrow> bool" where
  "notEmpty s = (s \<noteq> [])"

text \<open>
  \<^verbatim>\<open>
  const validateOrder = [
    body('items').isArray().notEmpty(),
    body('items.*.product_id').isUUID(),
    body('items.*.quantity').isInt({ min: 1 }),
    body('items.*.coverage').optional().isFloat({ min: 0 }),
    body('totalAmount').isFloat({ min: 0 }),
    body('shippingAddress').isObject(),
    body('shippingAddress.street').notEmpty(),
    body('shippingAddress.city').notEmpty(),
    body('shippingAddress.state').notEmpty(),
    body('shippingAddress.zipCode').notEmpty()
  ];
  \<close>
  The result is the list of the fields that failed a validator, in the order of the chain
  (\<^verbatim>\<open>validationResult(req)\<close>); a wildcard selects the field in every element of
  \<open>items\<close>. The test \<^verbatim>\<open>isUUID\<close> of the library is a parameter.
\<close>

definition failing :: "string \<Rightarrow> ('a \<Rightarrow> bool) \<Rightarrow> 'a list \<Rightarrow> string list" where
  "failing field ok vs = map (\<lambda>_. field) (filter (\<lambda>v. \<not> ok v) vs)"

definition validateOrder :: "(string \<Rightarrow> bool) \<Rightarrow> order_body \<Rightarrow> string list" where
  "validateOrder isUUID body =
     (let its = (case items body of None \<Rightarrow> [] | Some xs \<Rightarrow> xs);
          addr = (case shippingAddress body of
                    None \<Rightarrow> \<lparr>street = [], city = [], state = [], zipCode = []\<rparr>
                  | Some a \<Rightarrow> a)
      in (case items body of
            None \<Rightarrow> [''items'', ''items'']
          | Some [] \<Rightarrow> [''items'']
          | Some (x # xs) \<Rightarrow> [])
         @ failing ''items.*.product_id'' isUUID (map product_id its)
         @ failing ''items.*.quantity'' isInt_min_1 (map quantity its)
         @ failing ''items.*.coverage'' optional_isFloat_min_0 (map coverage its)
         @ failing ''totalAmount'' isFloat_min_0 [totalAmount body]
         @ (case shippingAddress body of None \<Rightarrow> [''shippingAddress''] | Some a \<Rightarrow> [])
         @ failing ''shippingAddress.street'' notEmpty [street addr]
         @ failing ''shippingAddress.city'' notEmpty [city addr]
         @ failing ''shippingAddress.state'' notEmpty [state addr]
         @ failing ''shippingAddress.zipCode'' notEmpty [zipCode addr])"

section \<open>Order placement\<close>

datatype order_status =
  Pending | Approved | Rejected | Processing | Shipped | Delivered | Cancelled

datatype payment_status =
  Payment_pending | Paid | Failed | Refunded | Payment_cancelled

text \<open>A row of table \<^verbatim>\<open>orders\<close> (columns \<^verbatim>\<open>id\<close>, \<^verbatim>\<open>user_id\<close>, \<^verbatim>\<open>items\<close>, ...).\<close>

record order =
  order_id :: uuid
  user_id :: uuid
  order_items :: "item list"
  total_amount :: rat
  shipping_address :: shipping_address
  status :: order_status
  payment_status :: payment_status

text \<open>A row of table \<^verbatim>\<open>admin_notifications\<close>.\<close>

record notification =
  notification_type :: string
  notification_user_id :: uuid
  content :: string
  notification_status :: string

record db =
  products :: "product list"
  orders :: "order list"
  admin_notifications :: "notification list"

text \<open>
  What the store decides by itself in one request: the \<^verbatim>\<open>id\<close> it generates for the
  new order (\<^verbatim>\<open>gen_random_uuid()\<close>), and whether the product lookup or the insert
  fails for a reason of its own (\<^verbatim>\<open>productError\<close>, \<^verbatim>\<open>orderError\<close>).
\<close>

record store_env =
  generated_id :: uuid
  productError :: "string option"
  orderError :: "string option"

datatype response =
  BadRequest "string list"
| Created order
| ServerError string bool

text \<open>
  \<^verbatim>\<open>supabase.from('products').select('id, length_mm, width_mm, box_moq').in('id', productIds)\<close>
\<close>

definition select_products :: "store_env \<Rightarrow> db \<Rightarrow> uuid list \<Rightarrow> string + product list" where
  "select_products env d productIds =
     (case productError env of
        Some e \<Rightarrow> Inl e
      | None \<Rightarrow> Inr (filter (\<lambda>p. prod_id p \<in> set productIds) (products d)))"

text \<open>
  \<^verbatim>\<open>supabase.from('orders').insert([...]).select().single()\<close>; \<^verbatim>\<open>id\<close> is the
  primary key, so a row whose \<^verbatim>\<open>id\<close> is taken is refused.
\<close>

definition insert_order :: "store_env \<Rightarrow> db \<Rightarrow> order \<Rightarrow> string + order \<times> db" where
  "insert_order env d row =
     (case orderError env of
        Some e \<Rightarrow> Inl e
      | None \<Rightarrow>
          if order_id row \<in> set (map order_id (orders d))
          then Inl ''duplicate key value violates unique constraint''
          else Inr (row, d\<lparr>orders := orders d @ [row]\<rparr>))"

text \<open>
  \<^verbatim>\<open>supabase.from('orders').update({status: 'cancelled', payment_status: 'cancelled'}).eq('id', order.id)\<close>
\<close>

definition cancel_order :: "db \<Rightarrow> uuid \<Rightarrow> db" where
  "cancel_order d oid =
     d\<lparr>orders := map (\<lambda>r. if order_id r = oid
                            then r\<lparr>status := Cancelled, payment_status := Payment_cancelled\<rparr>
                            else r) (orders d)\<rparr>"

definition notify_admin :: "db \<Rightarrow> uuid \<Rightarrow> uuid \<Rightarrow> db" where
  "notify_admin d userId oid =
     d\<lparr>admin_notifications := admin_notifications d @
        [\<lparr>notification_type = ''new_order'', notification_user_id = userId,
          content = ''New order #'' @ oid @ '' created'', notification_status = ''unread''\<rparr>]\<rparr>"

text \<open>
  The handler of \<^verbatim>\<open>POST /orders\<close>, after \<^verbatim>\<open>auth\<close> and \<^verbatim>\<open>checkPermission\<close>
  have let the request through: validation (400), product lookup, quantity resolution,
  insert of the order as \<^verbatim>\<open>pending\<close>, the stock loop, and either the cancellation
  and the 500 of the \<^verbatim>\<open>catch\<close> block (which always carries \<^verbatim>\<open>retry: true\<close>) or
  the notification and the 201. A body without \<open>items\<close> cannot pass validation; the
  last case is the \<^verbatim>\<open>TypeError\<close> JavaScript would throw there. The handler does not
  look at the result of the update that cancels the order, nor at the result of the insert
  of the notification: the store is taken to carry both out.
\<close>

definition post_order ::
  "(string \<Rightarrow> bool) \<Rightarrow> store_env \<Rightarrow> uuid \<Rightarrow> order_body \<Rightarrow> db \<Rightarrow> response \<times> db" where
  "post_order isUUID env userId body d =
     (let errors = validateOrder isUUID body in
      if errors \<noteq> [] then (BadRequest errors, d)
      else
        (case (items body, totalAmount body, shippingAddress body) of
           (Some its, Some amount, Some addr) \<Rightarrow>
             (case select_products env d (map product_id its) of
                Inl e \<Rightarrow> (ServerError e True, d)
              | Inr prods \<Rightarrow>
                  (let adjusted = adjustedItems prods its in
                   case insert_order env d
                          \<lparr>order_id = generated_id env, user_id = userId,
                           order_items = adjusted, total_amount = amount,
                           shipping_address = addr, status = Pending,
                           payment_status = Payment_pending\<rparr> of
                     Inl e \<Rightarrow> (ServerError e True, d)
                   | Inr (order, d1) \<Rightarrow>
                       (case stock_loop (products d1) adjusted of
                          (Some stockError, prods') \<Rightarrow>
                            (ServerError ''Failed to update product stock'' True,
                             cancel_order (d1\<lparr>products := prods'\<rparr>) (order_id order))
                        | (None, prods') \<Rightarrow>
                            (Created (order\<lparr>order_items := adjusted\<rparr>),
                             notify_admin (d1\<lparr>products := prods'\<rparr>) userId (order_id order)))))
         | _ \<Rightarrow> (ServerError ''TypeError'' True, d)))"

section \<open>Notions used to state the properties\<close>

text \<open>No row of the table has a negative stock (a \<^verbatim>\<open>NULL\<close> stock is not a number).\<close>

definition stock_nonneg :: "product list \<Rightarrow> bool" where
  "stock_nonneg ps = list_all (\<lambda>p. case stock p of None \<Rightarrow> True | Some s \<Rightarrow> 0 \<le> s) ps"

text \<open>
  A sequence of calls of \<^verbatim>\<open>update_product_stock\<close>, each with its product and its
  quantity, run one after the other whether or not a call raises.
\<close>

fun decrements :: "product list \<Rightarrow> (uuid \<times> int) list \<Rightarrow> product list" where
  "decrements ps [] = ps"
| "decrements ps ((pid, q) # ops) = decrements (snd (update_product_stock ps pid q)) ops"

text \<open>The stock of the row of a product, and what the lines of an order take from it.\<close>

definition stock_of :: "product list \<Rightarrow> uuid \<Rightarrow> int option" where
  "stock_of ps pid = (case find (\<lambda>p. prod_id p = pid) ps of None \<Rightarrow> None | Some p \<Rightarrow> stock p)"

fun quantity_value :: "jsnum option \<Rightarrow> rat" where
  "quantity_value (Some (Num r)) = r"
| "quantity_value _ = 0"

definition ordered_quantity :: "item list \<Rightarrow> uuid \<Rightarrow> rat" where
  "ordered_quantity its pid =
     sum_list (map (\<lambda>it. quantity_value (quantity it)) (filter (\<lambda>it. product_id it = pid) its))"

section \<open>Lemmas on quantity resolution\<close>





lemma box_round_dvd: "m dvd \<lceil>(of_int P :: rat) / of_int m\<rceil> * (m::int)"
  by simp



section \<open>Claims on quantity resolution\<close>









text \<open>
  Claim C5 says that a line is passed through unchanged when the coverage is absent or a
  dimension is absent or non-positive, negative values included. The guard of the handler
  is truthiness, and a negative number is truthy: with \<open>length_mm = -300\<close>,
  \<open>width_mm = 300\<close> and a coverage of 100 the area computation runs and the requested
  quantity 5 becomes \<open>-103\<close>.
\<close>

theorem C5_negative_dimension_counterexample:
  "quantity (adjust_item
      [\<lparr>prod_id = ''tile-neg'', length_mm = Some (- 300), width_mm = Some 300,
        box_moq = Some 1, stock = Some 500\<rparr>]
      \<lparr>product_id = ''tile-neg'', quantity = Some (Num 5), coverage = Some 100\<rparr>)
   = Some (Num (- 103))"
proof -
  have "\<lceil>- (2500000 / 24219) :: rat\<rceil> = - 103" by (rule ceiling_unique) simp_all
  then show ?thesis
    by (simp add: adjust_item_def calculateTileQuantity_def tileArea_def)
qed

text \<open>
  Claim C5, amended. If the requested coverage is absent, or the product's
  \<open>length_mm\<close> or \<open>width_mm\<close> is absent or zero, the adjusted line is the submitted
  line: the final quantity equals the requested quantity and no area computation is
  applied.
\<close>

theorem C5_pass_through:
  assumes "coverage it = None \<or>
           (\<exists>p. find (\<lambda>p. prod_id p = product_id it) ps = Some p \<and>
                (length_mm p = None \<or> length_mm p = Some 0 \<or>
                 width_mm p = None \<or> width_mm p = Some 0))"
  shows "adjust_item ps it = it \<and> quantity (adjust_item ps it) = quantity it"
  using assms by (auto simp: adjust_item_def split: option.splits)

theorem C5_pass_through_witness:
  "adjust_item
      [\<lparr>prod_id = ''sink-1'', length_mm = None, width_mm = Some 300,
        box_moq = Some 1, stock = Some 500\<rparr>]
      \<lparr>product_id = ''sink-1'', quantity = Some (Num 5), coverage = Some 100\<rparr>
   = \<lparr>product_id = ''sink-1'', quantity = Some (Num 5), coverage = Some 100\<rparr>"
  using C5_pass_through
    [of "\<lparr>product_id = ''sink-1'', quantity = Some (Num 5), coverage = Some 100\<rparr>"
        "[\<lparr>prod_id = ''sink-1'', length_mm = None, width_mm = Some 300,
           box_moq = Some 1, stock = Some 500\<rparr>]"]
  by simp




section \<open>Claims on request validation\<close>

lemma failing_mem: "v \<in> set vs \<Longrightarrow> \<not> ok v \<Longrightarrow> field \<in> set (failing field ok vs)"
  by (auto simp: failing_def)

text \<open>
  Claim C8 says that a line that supplies a coverage and omits the quantity passes
  validation. The chain has \<^verbatim>\<open>body('items.*.quantity').isInt({ min: 1 })\<close> without
  \<^verbatim>\<open>optional()\<close>: the request below is answered with 400 and nothing is stored.
\<close>

theorem C8_missing_quantity_counterexample:
  "post_order (\<lambda>s. length s = 36)
     \<lparr>generated_id = ''00000000-0000-4000-8000-0000000000aa'',
      productError = None, orderError = None\<rparr>
     ''00000000-0000-4000-8000-0000000000bb''
     \<lparr>items = Some [\<lparr>product_id = ''00000000-0000-4000-8000-000000000001'',
                      quantity = None, coverage = Some 100\<rparr>],
      totalAmount = Some 250,
      shippingAddress = Some \<lparr>street = ''1 Main St'', city = ''Mumbai'',
                               state = ''MH'', zipCode = ''400001''\<rparr>\<rparr>
     \<lparr>products = [\<lparr>prod_id = ''00000000-0000-4000-8000-000000000001'',
                    length_mm = Some 300, width_mm = Some 300,
                    box_moq = Some 1, stock = Some 500\<rparr>],
      orders = [], admin_notifications = []\<rparr>
   = (BadRequest [''items.*.quantity''],
      \<lparr>products = [\<lparr>prod_id = ''00000000-0000-4000-8000-000000000001'',
                    length_mm = Some 300, width_mm = Some 300,
                    box_moq = Some 1, stock = Some 500\<rparr>],
       orders = [], admin_notifications = []\<rparr>)"
  by (simp add: post_order_def validateOrder_def failing_def notEmpty_def)

text \<open>
  Claim C8, amended. A request with a line that omits the quantity is rejected by request
  validation with a 400 that names \<^verbatim>\<open>items.*.quantity\<close>, whether or not the line
  supplies a coverage, and the store is left as it was: the quantity is required on every
  line, only the coverage is optional.
\<close>

theorem C8_quantity_is_required:
  assumes "items body = Some its" and "it \<in> set its" and "quantity it = None"
  shows "\<exists>errors. post_order isUUID env userId body d = (BadRequest errors, d)
                  \<and> ''items.*.quantity'' \<in> set errors"
proof -
  have "quantity it \<in> set (map quantity its)" using assms(2) by simp
  moreover have "\<not> isInt_min_1 (quantity it)" using assms(3) by simp
  ultimately have "''items.*.quantity'' \<in> set (failing ''items.*.quantity'' isInt_min_1 (map quantity its))"
    by (rule failing_mem)
  then have m: "''items.*.quantity'' \<in> set (validateOrder isUUID body)"
    using assms(1) by (simp add: validateOrder_def Let_def)
  then have "validateOrder isUUID body \<noteq> []" by auto
  then have "post_order isUUID env userId body d = (BadRequest (validateOrder isUUID body), d)"
    by (simp add: post_order_def Let_def)
  with m show ?thesis by blast
qed

theorem C8_quantity_is_required_witness:
  "\<exists>errors.
     post_order (\<lambda>s. length s = 36)
       \<lparr>generated_id = ''00000000-0000-4000-8000-0000000000aa'',
        productError = None, orderError = None\<rparr>
       ''00000000-0000-4000-8000-0000000000bb''
       \<lparr>items = Some [\<lparr>product_id = ''00000000-0000-4000-8000-000000000001'',
                        quantity = None, coverage = Some 100\<rparr>],
        totalAmount = Some 250,
        shippingAddress = Some \<lparr>street = ''1 Main St'', city = ''Mumbai'',
                                 state = ''MH'', zipCode = ''400001''\<rparr>\<rparr>
       \<lparr>products = [], orders = [], admin_notifications = []\<rparr>
     = (BadRequest errors, \<lparr>products = [], orders = [], admin_notifications = []\<rparr>)
     \<and> ''items.*.quantity'' \<in> set errors"
  using C8_quantity_is_required
    [of "\<lparr>items = Some [\<lparr>product_id = ''00000000-0000-4000-8000-000000000001'',
                        quantity = None, coverage = Some 100\<rparr>],
        totalAmount = Some 250,
        shippingAddress = Some \<lparr>street = ''1 Main St'', city = ''Mumbai'',
                                 state = ''MH'', zipCode = ''400001''\<rparr>\<rparr>"
        "[\<lparr>product_id = ''00000000-0000-4000-8000-000000000001'',
                        quantity = None, coverage = Some 100\<rparr>]"
        "\<lparr>product_id = ''00000000-0000-4000-8000-000000000001'',
                        quantity = None, coverage = Some 100\<rparr>"
        "\<lambda>s. length s = 36"
        "\<lparr>generated_id = ''00000000-0000-4000-8000-0000000000aa'',
        productError = None, orderError = None\<rparr>"
        "''00000000-0000-4000-8000-0000000000bb''"
        "\<lparr>products = [], orders = [], admin_notifications = []\<rparr>"]
  by simp

section \<open>Lemmas on the stock store and on order placement\<close>

lemma update_product_stock_error_unchanged:
  "update_product_stock ps pid q = (Some e, ps') \<Longrightarrow> ps' = ps"
  by (auto simp: update_product_stock_def Let_def split: if_splits)

lemma decrement_row_nonneg:
  assumes "row_matches pid q p"
  shows "case stock (decrement_row q p) of None \<Rightarrow> True | Some s \<Rightarrow> 0 \<le> s"
  using assms by (auto simp: row_matches_def decrement_row_def split: option.splits)

lemma update_product_stock_nonneg:
  assumes "stock_nonneg ps"
  shows "stock_nonneg (snd (update_product_stock ps pid q))"
proof -
  have "list_all (\<lambda>p. case stock p of None \<Rightarrow> True | Some s \<Rightarrow> 0 \<le> s)
          (map (\<lambda>p. if row_matches pid q p then decrement_row q p else p) ps)"
    using assms decrement_row_nonneg[of pid q]
    by (auto simp: stock_nonneg_def list_all_iff)
  then show ?thesis using assms
    by (simp add: update_product_stock_def Let_def stock_nonneg_def)
qed

lemma decrements_nonneg: "stock_nonneg ps \<Longrightarrow> stock_nonneg (decrements ps ops)"
proof (induction ops arbitrary: ps)
  case Nil
  then show ?case by simp
next
  case (Cons op ops)
  obtain pid q where op: "op = (pid, q)" by (cases op)
  from Cons.prems have "stock_nonneg (snd (update_product_stock ps pid q))"
    by (rule update_product_stock_nonneg)
  then show ?case unfolding op by (simp add: Cons.IH)
qed

lemma unique_row:
  assumes "distinct (map prod_id ps)" and "p \<in> set ps" and "r \<in> set ps"
    and "prod_id r = prod_id p"
  shows "r = p"
  using assms by (meson distinct_map inj_onD)

lemma update_product_stock_row:
  assumes d: "distinct (map prod_id ps)" and p: "p \<in> set ps" and s: "stock p = Some s"
    and b: "s \<le> int4_max" and q: "1 \<le> q"
  shows "update_product_stock ps (prod_id p) q =
           (if q \<le> s
            then (None, map (\<lambda>r. if prod_id r = prod_id p then r\<lparr>stock := Some (s - q)\<rparr> else r) ps)
            else (Some (Insufficient_stock (prod_id p)), ps))"
proof (cases "q \<le> s")
  case True
  have m: "row_matches (prod_id p) q r \<longleftrightarrow> prod_id r = prod_id p" if r: "r \<in> set ps" for r
  proof (cases "prod_id r = prod_id p")
    case True
    then have "r = p" using unique_row[OF d p r] by simp
    then show ?thesis using s \<open>q \<le> s\<close> by (simp add: row_matches_def)
  next
    case False
    then show ?thesis by (simp add: row_matches_def)
  qed
  have ne: "filter (row_matches (prod_id p) q) ps \<noteq> []"
    using p m by (auto simp: filter_empty_conv)
  have no: "\<not> list_ex (row_overflows q) (filter (row_matches (prod_id p) q) ps)"
  proof -
    have "\<And>r. r \<in> set ps \<Longrightarrow> row_matches (prod_id p) q r \<Longrightarrow> \<not> row_overflows q r"
    proof -
      fix r assume "r \<in> set ps" and "row_matches (prod_id p) q r"
      then have "r = p" using unique_row[OF d p] by (simp add: row_matches_def)
      then show "\<not> row_overflows q r" using s b q by (simp add: row_overflows_def)
    qed
    then show ?thesis by (auto simp: list_ex_iff)
  qed
  have "map (\<lambda>r. if row_matches (prod_id p) q r then decrement_row q r else r) ps
        = map (\<lambda>r. if prod_id r = prod_id p then r\<lparr>stock := Some (s - q)\<rparr> else r) ps"
  proof (rule map_cong[OF refl])
    fix r assume r: "r \<in> set ps"
    show "(if row_matches (prod_id p) q r then decrement_row q r else r)
          = (if prod_id r = prod_id p then r\<lparr>stock := Some (s - q)\<rparr> else r)"
    proof (cases "prod_id r = prod_id p")
      case True
      then have "r = p" using unique_row[OF d p r] by simp
      then show ?thesis using m[OF r] True s by (simp add: decrement_row_def)
    next
      case False
      then show ?thesis using m[OF r] by simp
    qed
  qed
  then show ?thesis using True ne no by (simp add: update_product_stock_def Let_def)
next
  case False
  have "\<And>r. r \<in> set ps \<Longrightarrow> \<not> row_matches (prod_id p) q r"
  proof
    fix r assume r: "r \<in> set ps" and rm: "row_matches (prod_id p) q r"
    then have "r = p" using unique_row[OF d p r] by (simp add: row_matches_def)
    then show False using rm s False by (simp add: row_matches_def)
  qed
  then have "filter (row_matches (prod_id p) q) ps = []"
    by (auto simp: filter_empty_conv)
  then show ?thesis using False by (simp add: update_product_stock_def Let_def)
qed


lemma rpc_error_unchanged:
  "rpc_update_product_stock ps pid v = (Some e, ps') \<Longrightarrow> ps' = ps"
  by (cases "(ps, pid, v)" rule: rpc_update_product_stock.cases)
     (auto dest: update_product_stock_error_unchanged split: if_splits)

lemma rpc_nonneg:
  "stock_nonneg ps \<Longrightarrow> stock_nonneg (snd (rpc_update_product_stock ps pid v))"
  by (cases "(ps, pid, v)" rule: rpc_update_product_stock.cases)
     (auto simp: update_product_stock_nonneg)

lemma stock_loop_nonneg:
  "stock_nonneg ps \<Longrightarrow> stock_nonneg (snd (stock_loop ps its))"
proof (induction its arbitrary: ps)
  case Nil
  then show ?case by simp
next
  case (Cons it its)
  obtain r ps1 where c: "rpc_update_product_stock ps (product_id it) (quantity it) = (r, ps1)"
    by (cases "rpc_update_product_stock ps (product_id it) (quantity it)")
  have n: "stock_nonneg ps1" using rpc_nonneg[OF Cons.prems, of "product_id it" "quantity it"] c by simp
  show ?case
  proof (cases r)
    case None
    then show ?thesis using c Cons.IH[OF n] by simp
  next
    case (Some e)
    then show ?thesis using c n by simp
  qed
qed

lemma products_cancel_order [simp]: "products (cancel_order d oid) = products d"
  by (simp add: cancel_order_def)

lemma products_notify_admin [simp]: "products (notify_admin d u oid) = products d"
  by (simp add: notify_admin_def)

lemma post_order_nonneg:
  assumes "stock_nonneg (products d)"
  shows "stock_nonneg (products (snd (post_order isUUID env userId body d)))"
proof -
  have "stock_nonneg ps'" if "stock_loop (products d) its = (r, ps')" for its r ps'
    using stock_loop_nonneg[OF assms, of its] that by simp
  then show ?thesis using assms
    by (auto simp: post_order_def Let_def insert_order_def
        split: option.splits sum.splits prod.splits)
qed

lemma post_order_placed:
  assumes "validateOrder isUUID body = []"
    and "items body = Some its" and "totalAmount body = Some amount"
    and "shippingAddress body = Some addr"
    and "select_products env d (map product_id its) = Inr prods"
    and "orderError env = None"
    and "generated_id env \<notin> set (map order_id (orders d))"
    and "row = \<lparr>order_id = generated_id env, user_id = userId,
                 order_items = adjustedItems prods its, total_amount = amount,
                 shipping_address = addr, status = Pending,
                 payment_status = Payment_pending\<rparr>"
  shows "post_order isUUID env userId body d =
     (case stock_loop (products d) (adjustedItems prods its) of
        (Some stockError, prods') \<Rightarrow>
          (ServerError ''Failed to update product stock'' True,
           cancel_order (d\<lparr>orders := orders d @ [row], products := prods'\<rparr>) (generated_id env))
      | (None, prods') \<Rightarrow>
          (Created row,
           notify_admin (d\<lparr>orders := orders d @ [row], products := prods'\<rparr>) userId
             (generated_id env)))"
  using assms
  by (auto simp: post_order_def Let_def insert_order_def split: option.splits prod.splits)

lemma cancel_fresh_order:
  assumes "oid \<notin> set (map order_id os)" and "order_id row = oid"
  shows "orders (cancel_order (d\<lparr>orders := os @ [row], products := ps\<rparr>) oid)
         = os @ [row\<lparr>status := Cancelled, payment_status := Payment_cancelled\<rparr>]"
proof -
  have "map (\<lambda>r. if order_id r = oid
                 then r\<lparr>status := Cancelled, payment_status := Payment_cancelled\<rparr> else r) os = os"
    using assms(1) by (induction os) auto
  then show ?thesis using assms(2) by (simp add: cancel_order_def)
qed

lemma prod_id_decrement_row [simp]: "prod_id (decrement_row q p) = prod_id p"
  by (simp add: decrement_row_def)

lemma update_product_stock_success:
  assumes "update_product_stock ps pid q = (None, ps')"
  shows "ps' = map (\<lambda>p. if row_matches pid q p then decrement_row q p else p) ps"
    and "\<exists>r\<in>set ps. row_matches pid q r"
  using assms
  by (auto simp: update_product_stock_def Let_def filter_empty_conv split: if_splits)

lemma update_product_stock_ids:
  "map prod_id (snd (update_product_stock ps pid q)) = map prod_id ps"
  by (auto simp: update_product_stock_def Let_def)

lemma rpc_ids:
  "map prod_id (snd (rpc_update_product_stock ps pid v)) = map prod_id ps"
  by (cases "(ps, pid, v)" rule: rpc_update_product_stock.cases)
     (auto simp: update_product_stock_ids)

lemma rpc_success:
  assumes "rpc_update_product_stock ps pid v = (None, ps')"
  shows "\<exists>q. v = Some (Num (of_int q)) \<and> update_product_stock ps pid q = (None, ps')"
proof (cases "(ps, pid, v)" rule: rpc_update_product_stock.cases)
  case (1 products pid)
  then show ?thesis using assms by simp
next
  case (2 products pid)
  then show ?thesis using assms by simp
next
  case (3 products pid' r)
  then have "\<exists>n. r = of_int n" and u: "update_product_stock ps pid \<lfloor>r\<rfloor> = (None, ps')"
    using assms by (auto split: if_splits)
  then obtain n where n: "r = of_int n" by blast
  show ?thesis using 3 n u by (intro exI[of _ n]) simp
qed

lemma find_map_preserving:
  assumes "\<And>x. P (f x) = P x"
  shows "find P (map f xs) = map_option f (find P xs)"
  by (induction xs) (simp_all add: assms)

lemma stock_of_update:
  assumes d: "distinct (map prod_id ps)"
    and u: "update_product_stock ps pid q = (None, ps')"
  shows "stock_of ps' pid' =
           (if pid' = pid then map_option (\<lambda>s. s - q) (stock_of ps pid) else stock_of ps pid')"
proof -
  let ?f = "\<lambda>p. if row_matches pid q p then decrement_row q p else p"
  have ps': "ps' = map ?f ps" using update_product_stock_success(1)[OF u] .
  obtain r where r: "r \<in> set ps" "row_matches pid q r"
    using update_product_stock_success(2)[OF u] by blast
  have fm: "find (\<lambda>p. prod_id p = pid') ps' = map_option ?f (find (\<lambda>p. prod_id p = pid') ps)"
    unfolding ps' by (rule find_map_preserving) simp
  show ?thesis
  proof (cases "pid' = pid")
    case False
    show ?thesis
    proof (cases "find (\<lambda>p. prod_id p = pid') ps")
      case None
      then show ?thesis using False fm by (simp add: stock_of_def)
    next
      case (Some p)
      then have "prod_id p = pid'" unfolding find_Some_iff by blast
      then have "stock (?f p) = stock p" using False by (simp add: row_matches_def)
      then show ?thesis using False fm Some by (simp add: stock_of_def)
    qed
  next
    case True
    have "find (\<lambda>p. prod_id p = pid) ps = Some r"
    proof (cases "find (\<lambda>p. prod_id p = pid) ps")
      case None
      then show ?thesis using r by (auto simp: find_None_iff row_matches_def)
    next
      case (Some p)
      then have "p \<in> set ps" and "prod_id p = pid"
        unfolding find_Some_iff by auto
      then have "p = r" using d r by (auto simp: row_matches_def distinct_map dest: inj_onD)
      then show ?thesis using Some by simp
    qed
    then show ?thesis using True fm r(2)
      by (simp add: stock_of_def decrement_row_def)
  qed
qed

lemma ordered_quantity_Cons:
  "ordered_quantity (it # its) pid =
     (if product_id it = pid then quantity_value (quantity it) else 0) + ordered_quantity its pid"
  by (simp add: ordered_quantity_def)

lemma stock_loop_deducts:
  assumes "distinct (map prod_id ps)" and "stock_loop ps its = (None, ps')"
  shows "map_option of_int (stock_of ps' pid)
         = map_option (\<lambda>s. of_int s - ordered_quantity its pid) (stock_of ps pid)"
  using assms
proof (induction its arbitrary: ps)
  case Nil
  then show ?case by (simp add: ordered_quantity_def option.map_ident)
next
  case (Cons it its)
  obtain e ps1 where c: "rpc_update_product_stock ps (product_id it) (quantity it) = (e, ps1)"
    by (cases "rpc_update_product_stock ps (product_id it) (quantity it)")
  have e: "e = None" using Cons.prems(2) c by (cases e) auto
  then have l: "stock_loop ps1 its = (None, ps')" using Cons.prems(2) c by simp
  obtain q where q: "quantity it = Some (Num (of_int q))"
    and u: "update_product_stock ps (product_id it) q = (None, ps1)"
    using rpc_success c e by blast
  have d1: "distinct (map prod_id ps1)"
    using Cons.prems(1) update_product_stock_ids[of ps "product_id it" q] u by simp
  have ih: "map_option of_int (stock_of ps' pid)
         = map_option (\<lambda>s. of_int s - ordered_quantity its pid) (stock_of ps1 pid)"
    using Cons.IH[OF d1 l] .
  have s1: "stock_of ps1 pid =
           (if pid = product_id it then map_option (\<lambda>s. s - q) (stock_of ps (product_id it))
            else stock_of ps pid)"
    using stock_of_update[OF Cons.prems(1) u] .
  show ?case
  proof (cases "pid = product_id it")
    case True
    then show ?thesis using ih s1 q
      by (cases "stock_of ps pid") (auto simp: ordered_quantity_Cons algebra_simps)
  next
    case False
    then show ?thesis using ih s1 q
      by (cases "stock_of ps pid") (auto simp: ordered_quantity_Cons)
  qed
qed

lemma stock_loop_append:
  assumes "stock_loop ps pre = (None, ps1)"
  shows "stock_loop ps (pre @ its) = stock_loop ps1 its"
  using assms
proof (induction pre arbitrary: ps)
  case Nil
  then show ?case by simp
next
  case (Cons it pre)
  obtain e ps2 where c: "rpc_update_product_stock ps (product_id it) (quantity it) = (e, ps2)"
    by (cases "rpc_update_product_stock ps (product_id it) (quantity it)")
  have e: "e = None" using Cons.prems c by (cases e) auto
  then show ?case using Cons c by simp
qed

lemma stock_loop_fails_at:
  assumes "stock_loop ps pre = (None, ps1)"
    and "fst (rpc_update_product_stock ps1 (product_id bad) (quantity bad)) = Some e"
  shows "stock_loop ps (pre @ bad # post) = (Some e, ps1)"
proof -
  obtain ps2 where c: "rpc_update_product_stock ps1 (product_id bad) (quantity bad) = (Some e, ps2)"
    using assms(2) by (cases "rpc_update_product_stock ps1 (product_id bad) (quantity bad)") auto
  then have "ps2 = ps1" by (rule rpc_error_unchanged)
  then show ?thesis using stock_loop_append[OF assms(1)] c by simp
qed

lemma post_order_created:
  assumes "post_order isUUID env userId body d = (Created ord, d')"
  shows "\<exists>its amount addr prods ps'.
           items body = Some its \<and> totalAmount body = Some amount \<and>
           shippingAddress body = Some addr \<and>
           select_products env d (map product_id its) = Inr prods \<and>
           ord = \<lparr>order_id = generated_id env, user_id = userId,
                  order_items = adjustedItems prods its, total_amount = amount,
                  shipping_address = addr, status = Pending,
                  payment_status = Payment_pending\<rparr> \<and>
           stock_loop (products d) (adjustedItems prods its) = (None, ps') \<and>
           d' = notify_admin (d\<lparr>orders := orders d @ [ord], products := ps'\<rparr>) userId
                  (generated_id env)"
  using assms
  by (auto simp: post_order_def Let_def insert_order_def
      split: option.splits sum.splits prod.splits if_splits)

section \<open>Claims on the stock store and on order placement\<close>

text \<open>
  Claim C1. For a product row with a stock \<open>s \<ge> 0\<close> (a value of the column type
  \<^verbatim>\<open>integer\<close>, in a table whose \<^verbatim>\<open>id\<close> is a key) and a requested quantity
  \<open>q \<ge> 1\<close>, one call of \<^verbatim>\<open>update_product_stock\<close> either, when \<open>s \<ge> q\<close>,
  replaces the stock by \<open>s - q\<close>, which is still at least 0, and raises nothing, or, when
  \<open>s < q\<close>, leaves the table as it was and raises \<^verbatim>\<open>Insufficient stock\<close>. Hence
  no stock becomes negative through any sequence of such calls, nor through a request to
  \<^verbatim>\<open>POST /orders\<close>.
\<close>

theorem C1_stock_never_negative:
  "(distinct (map prod_id ps) \<and> p \<in> set ps \<and> stock p = Some s \<and>
    0 \<le> s \<and> s \<le> int4_max \<and> 1 \<le> q \<longrightarrow>
      (if q \<le> s
       then update_product_stock ps (prod_id p) q =
              (None, map (\<lambda>r. if prod_id r = prod_id p then r\<lparr>stock := Some (s - q)\<rparr> else r) ps)
            \<and> 0 \<le> s - q
       else update_product_stock ps (prod_id p) q = (Some (Insufficient_stock (prod_id p)), ps)))
   \<and> (stock_nonneg ps \<longrightarrow> stock_nonneg (decrements ps ops))
   \<and> (stock_nonneg (products d) \<longrightarrow>
        stock_nonneg (products (snd (post_order isUUID env userId body d))))"
proof (intro conjI impI)
  assume "distinct (map prod_id ps) \<and> p \<in> set ps \<and> stock p = Some s \<and>
    0 \<le> s \<and> s \<le> int4_max \<and> 1 \<le> q"
  then show "if q \<le> s
       then update_product_stock ps (prod_id p) q =
              (None, map (\<lambda>r. if prod_id r = prod_id p then r\<lparr>stock := Some (s - q)\<rparr> else r) ps)
            \<and> 0 \<le> s - q
       else update_product_stock ps (prod_id p) q = (Some (Insufficient_stock (prod_id p)), ps)"
    using update_product_stock_row[of ps p s q] by simp
next
  assume "stock_nonneg ps"
  then show "stock_nonneg (decrements ps ops)" by (rule decrements_nonneg)
next
  assume "stock_nonneg (products d)"
  then show "stock_nonneg (products (snd (post_order isUUID env userId body d)))"
    by (rule post_order_nonneg)
qed

theorem C1_stock_never_negative_witness:
  "update_product_stock
     [\<lparr>prod_id = ''tile-300'', length_mm = Some 300, width_mm = Some 300,
       box_moq = Some 1, stock = Some 20\<rparr>] ''tile-300'' 5
   = (None, [\<lparr>prod_id = ''tile-300'', length_mm = Some 300, width_mm = Some 300,
               box_moq = Some 1, stock = Some 15\<rparr>])
   \<and> stock_nonneg (decrements
         [\<lparr>prod_id = ''tile-300'', length_mm = Some 300, width_mm = Some 300,
           box_moq = Some 1, stock = Some 20\<rparr>]
         [(''tile-300'', 5), (''tile-300'', 50), (''tile-300'', 15)])"
proof -
  note t = C1_stock_never_negative
    [where ps = "[\<lparr>prod_id = ''tile-300'', length_mm = Some 300, width_mm = Some 300,
                   box_moq = Some 1, stock = Some 20\<rparr>]"
       and p = "\<lparr>prod_id = ''tile-300'', length_mm = Some 300, width_mm = Some 300,
                 box_moq = Some 1, stock = Some 20\<rparr>"
       and s = 20 and q = 5
       and ops = "[(''tile-300'', 5), (''tile-300'', 50), (''tile-300'', 15)]"
       and d = "\<lparr>products = [], orders = [], admin_notifications = []\<rparr>"
       and isUUID = "\<lambda>s. True"
       and env = "\<lparr>generated_id = [], productError = None, orderError = None\<rparr>"
       and userId = "[]"
       and body = "\<lparr>items = None, totalAmount = None, shippingAddress = None\<rparr>"]
  have n: "stock_nonneg [\<lparr>prod_id = ''tile-300'', length_mm = Some 300, width_mm = Some 300,
                   box_moq = Some 1, stock = Some 20\<rparr>]"
    by (simp add: stock_nonneg_def)
  have "update_product_stock
     [\<lparr>prod_id = ''tile-300'', length_mm = Some 300, width_mm = Some 300,
       box_moq = Some 1, stock = Some 20\<rparr>] ''tile-300'' 5
   = (None, [\<lparr>prod_id = ''tile-300'', length_mm = Some 300, width_mm = Some 300,
               box_moq = Some 1, stock = Some 15\<rparr>])"
    using t [THEN conjunct1] by (simp add: int4_max_def)
  moreover have "stock_nonneg (decrements
         [\<lparr>prod_id = ''tile-300'', length_mm = Some 300, width_mm = Some 300,
           box_moq = Some 1, stock = Some 20\<rparr>]
         [(''tile-300'', 5), (''tile-300'', 50), (''tile-300'', 15)])"
    using t [THEN conjunct2, THEN conjunct1] n by blast
  ultimately show ?thesis by (rule conjI)
qed

text \<open>
  Claim C2. When the order has been inserted and the decrement of some line fails (the
  stock loop ends with an error), the inserted order is updated to status
  \<^verbatim>\<open>cancelled\<close> and payment status \<^verbatim>\<open>cancelled\<close>, and the caller receives the
  failure response with \<^verbatim>\<open>retry: true\<close>.
\<close>

theorem C2_cancelled_on_stock_failure:
  assumes "validateOrder isUUID body = []"
    and "items body = Some its" and "totalAmount body = Some amount"
    and "shippingAddress body = Some addr"
    and "select_products env d (map product_id its) = Inr prods"
    and "orderError env = None"
    and "generated_id env \<notin> set (map order_id (orders d))"
    and "fst (stock_loop (products d) (adjustedItems prods its)) = Some stockError"
  shows "fst (post_order isUUID env userId body d)
           = ServerError ''Failed to update product stock'' True
         \<and> orders (snd (post_order isUUID env userId body d))
           = orders d @
             [\<lparr>order_id = generated_id env, user_id = userId,
               order_items = adjustedItems prods its, total_amount = amount,
               shipping_address = addr, status = Cancelled,
               payment_status = Payment_cancelled\<rparr>]"
proof -
  define row where "row = \<lparr>order_id = generated_id env, user_id = userId,
                 order_items = adjustedItems prods its, total_amount = amount,
                 shipping_address = addr, status = Pending,
                 payment_status = Payment_pending\<rparr>"
  obtain ps' where l: "stock_loop (products d) (adjustedItems prods its) = (Some stockError, ps')"
    using assms(8) by (cases "stock_loop (products d) (adjustedItems prods its)") auto
  have "post_order isUUID env userId body d =
          (ServerError ''Failed to update product stock'' True,
           cancel_order (d\<lparr>orders := orders d @ [row], products := ps'\<rparr>) (generated_id env))"
    using post_order_placed[OF assms(1-7) row_def, of ] l by simp
  moreover have "orders (cancel_order (d\<lparr>orders := orders d @ [row], products := ps'\<rparr>) (generated_id env))
         = orders d @ [row\<lparr>status := Cancelled, payment_status := Payment_cancelled\<rparr>]"
    using assms(7) by (intro cancel_fresh_order) (simp_all add: row_def)
  ultimately show ?thesis by (simp add: row_def)
qed

theorem C2_cancelled_on_stock_failure_witness:
  "fst (post_order (\<lambda>s. length s = 36)
     \<lparr>generated_id = ''00000000-0000-4000-8000-0000000000aa'',
      productError = None, orderError = None\<rparr>
     ''00000000-0000-4000-8000-0000000000bb''
     \<lparr>items = Some [\<lparr>product_id = ''00000000-0000-4000-8000-000000000001'',
                      quantity = Some (Num 5), coverage = None\<rparr>],
      totalAmount = Some 250,
      shippingAddress = Some \<lparr>street = ''1 Main St'', city = ''Mumbai'',
                               state = ''MH'', zipCode = ''400001''\<rparr>\<rparr>
     \<lparr>products = [\<lparr>prod_id = ''00000000-0000-4000-8000-000000000001'',
                    length_mm = Some 300, width_mm = Some 300,
                    box_moq = Some 1, stock = Some 3\<rparr>],
      orders = [], admin_notifications = []\<rparr>)
   = ServerError ''Failed to update product stock'' True"
  using C2_cancelled_on_stock_failure
    [where isUUID = "\<lambda>s. length s = 36"
       and env = "\<lparr>generated_id = ''00000000-0000-4000-8000-0000000000aa'',
                   productError = None, orderError = None\<rparr>"
       and userId = "''00000000-0000-4000-8000-0000000000bb''"
       and body = "\<lparr>items = Some [\<lparr>product_id = ''00000000-0000-4000-8000-000000000001'',
                      quantity = Some (Num 5), coverage = None\<rparr>],
                    totalAmount = Some 250,
                    shippingAddress = Some \<lparr>street = ''1 Main St'', city = ''Mumbai'',
                               state = ''MH'', zipCode = ''400001''\<rparr>\<rparr>"
       and its = "[\<lparr>product_id = ''00000000-0000-4000-8000-000000000001'',
                      quantity = Some (Num 5), coverage = None\<rparr>]"
       and amount = 250
       and addr = "\<lparr>street = ''1 Main St'', city = ''Mumbai'',
                               state = ''MH'', zipCode = ''400001''\<rparr>"
       and d = "\<lparr>products = [\<lparr>prod_id = ''00000000-0000-4000-8000-000000000001'',
                    length_mm = Some 300, width_mm = Some 300,
                    box_moq = Some 1, stock = Some 3\<rparr>],
                 orders = [], admin_notifications = []\<rparr>"
       and prods = "[\<lparr>prod_id = ''00000000-0000-4000-8000-000000000001'',
                    length_mm = Some 300, width_mm = Some 300,
                    box_moq = Some 1, stock = Some 3\<rparr>]"
       and stockError = "Insufficient_stock ''00000000-0000-4000-8000-000000000001''"]
  by (simp add: validateOrder_def failing_def notEmpty_def select_products_def
      adjustedItems_def adjust_item_def update_product_stock_def
      row_matches_def row_overflows_def int4_max_def int4_min_def Let_def)

text \<open>
  Claim C7. In a cart of two or more lines where the decrements of the earlier lines
  succeeded and the decrement of a later line fails, the order ends persisted with status
  \<^verbatim>\<open>cancelled\<close> and the earlier decrements are not reverted: the table of products
  is the one the earlier lines left, where (the \<^verbatim>\<open>id\<close> being a key) the stock of
  every product is its former stock less the quantities of the earlier lines for it.
\<close>

theorem C7_no_rollback_of_earlier_lines:
  assumes "validateOrder isUUID body = []"
    and "items body = Some its" and "totalAmount body = Some amount"
    and "shippingAddress body = Some addr"
    and "select_products env d (map product_id its) = Inr prods"
    and "orderError env = None"
    and "generated_id env \<notin> set (map order_id (orders d))"
    and "distinct (map prod_id (products d))"
    and "adjustedItems prods its = pre @ bad # post" and "pre \<noteq> []"
    and "stock_loop (products d) pre = (None, ps_failed)"
    and "fst (rpc_update_product_stock ps_failed (product_id bad) (quantity bad)) = Some stockError"
  shows "orders (snd (post_order isUUID env userId body d))
           = orders d @
             [\<lparr>order_id = generated_id env, user_id = userId,
               order_items = adjustedItems prods its, total_amount = amount,
               shipping_address = addr, status = Cancelled,
               payment_status = Payment_cancelled\<rparr>]
         \<and> products (snd (post_order isUUID env userId body d)) = ps_failed
         \<and> (\<forall>pid. map_option of_int
                    (stock_of (products (snd (post_order isUUID env userId body d))) pid)
                  = map_option (\<lambda>s. of_int s - ordered_quantity pre pid)
                      (stock_of (products d) pid))"
proof -
  define row where "row = \<lparr>order_id = generated_id env, user_id = userId,
                 order_items = adjustedItems prods its, total_amount = amount,
                 shipping_address = addr, status = Pending,
                 payment_status = Payment_pending\<rparr>"
  have l: "stock_loop (products d) (adjustedItems prods its) = (Some stockError, ps_failed)"
    unfolding assms(9) using assms(11,12) by (rule stock_loop_fails_at)
  have po: "post_order isUUID env userId body d =
          (ServerError ''Failed to update product stock'' True,
           cancel_order (d\<lparr>orders := orders d @ [row], products := ps_failed\<rparr>) (generated_id env))"
    using post_order_placed[OF assms(1-7) row_def] l by simp
  have o: "orders (cancel_order (d\<lparr>orders := orders d @ [row], products := ps_failed\<rparr>) (generated_id env))
         = orders d @ [row\<lparr>status := Cancelled, payment_status := Payment_cancelled\<rparr>]"
    using assms(7) by (intro cancel_fresh_order) (simp_all add: row_def)
  have p: "products (snd (post_order isUUID env userId body d)) = ps_failed"
    using po by simp
  have "\<forall>pid. map_option of_int (stock_of ps_failed pid)
                  = map_option (\<lambda>s. of_int s - ordered_quantity pre pid)
                      (stock_of (products d) pid)"
    using stock_loop_deducts[OF assms(8,11)] by blast
  then show ?thesis using po o p by (simp add: row_def)
qed

theorem C7_no_rollback_of_earlier_lines_witness:
  "products (snd (post_order (\<lambda>s. length s = 36)
       \<lparr>generated_id = ''00000000-0000-4000-8000-0000000000aa'',
        productError = None, orderError = None\<rparr>
       ''00000000-0000-4000-8000-0000000000bb''
       \<lparr>items = Some [\<lparr>product_id = ''00000000-0000-4000-8000-000000000001'',
        quantity = Some (Num 5), coverage = None\<rparr>,
        \<lparr>product_id = ''00000000-0000-4000-8000-000000000002'',
        quantity = Some (Num 1), coverage = None\<rparr>], totalAmount = Some 250,
        shippingAddress = Some \<lparr>street = ''1 Main St'', city = ''Mumbai'',
        state = ''MH'', zipCode = ''400001''\<rparr>\<rparr>
       \<lparr>products = [\<lparr>prod_id = ''00000000-0000-4000-8000-000000000001'',
        length_mm = Some 300, width_mm = Some 300, box_moq = Some 1,
        stock = Some 20\<rparr>,
        \<lparr>prod_id = ''00000000-0000-4000-8000-000000000002'', length_mm = Some 300,
        width_mm = Some 300, box_moq = Some 1, stock = Some 0\<rparr>], orders = [],
        admin_notifications = []\<rparr>))
   = [\<lparr>prod_id = ''00000000-0000-4000-8000-000000000001'', length_mm = Some 300,
      width_mm = Some 300, box_moq = Some 1, stock = Some 15\<rparr>,
      \<lparr>prod_id = ''00000000-0000-4000-8000-000000000002'', length_mm = Some 300,
      width_mm = Some 300, box_moq = Some 1, stock = Some 0\<rparr>]
   \<and> orders (snd (post_order (\<lambda>s. length s = 36)
       \<lparr>generated_id = ''00000000-0000-4000-8000-0000000000aa'',
        productError = None, orderError = None\<rparr>
       ''00000000-0000-4000-8000-0000000000bb''
       \<lparr>items = Some [\<lparr>product_id = ''00000000-0000-4000-8000-000000000001'',
        quantity = Some (Num 5), coverage = None\<rparr>,
        \<lparr>product_id = ''00000000-0000-4000-8000-000000000002'',
        quantity = Some (Num 1), coverage = None\<rparr>], totalAmount = Some 250,
        shippingAddress = Some \<lparr>street = ''1 Main St'', city = ''Mumbai'',
        state = ''MH'', zipCode = ''400001''\<rparr>\<rparr>
       \<lparr>products = [\<lparr>prod_id = ''00000000-0000-4000-8000-000000000001'',
        length_mm = Some 300, width_mm = Some 300, box_moq = Some 1,
        stock = Some 20\<rparr>,
        \<lparr>prod_id = ''00000000-0000-4000-8000-000000000002'', length_mm = Some 300,
        width_mm = Some 300, box_moq = Some 1, stock = Some 0\<rparr>], orders = [],
        admin_notifications = []\<rparr>))
   = [\<lparr>order_id = ''00000000-0000-4000-8000-0000000000aa'',
      user_id = ''00000000-0000-4000-8000-0000000000bb'',
      order_items = [\<lparr>product_id = ''00000000-0000-4000-8000-000000000001'',
      quantity = Some (Num 5), coverage = None\<rparr>,
      \<lparr>product_id = ''00000000-0000-4000-8000-000000000002'',
      quantity = Some (Num 1), coverage = None\<rparr>], total_amount = 250,
      shipping_address = \<lparr>street = ''1 Main St'', city = ''Mumbai'',
      state = ''MH'', zipCode = ''400001''\<rparr>, status = Cancelled,
      payment_status = Payment_cancelled\<rparr>]"
proof -
  note t = C7_no_rollback_of_earlier_lines
    [where isUUID = "\<lambda>s. length s = 36"
       and env = "\<lparr>generated_id = ''00000000-0000-4000-8000-0000000000aa'',
               productError = None, orderError = None\<rparr>"
       and userId = "''00000000-0000-4000-8000-0000000000bb''"
       and body = "\<lparr>items = Some [\<lparr>product_id = ''00000000-0000-4000-8000-000000000001'',
               quantity = Some (Num 5), coverage = None\<rparr>,
               \<lparr>product_id = ''00000000-0000-4000-8000-000000000002'',
               quantity = Some (Num 1), coverage = None\<rparr>], totalAmount = Some 250,
               shippingAddress = Some \<lparr>street = ''1 Main St'', city = ''Mumbai'',
               state = ''MH'', zipCode = ''400001''\<rparr>\<rparr>"
       and its = "[\<lparr>product_id = ''00000000-0000-4000-8000-000000000001'',
               quantity = Some (Num 5), coverage = None\<rparr>,
               \<lparr>product_id = ''00000000-0000-4000-8000-000000000002'',
               quantity = Some (Num 1), coverage = None\<rparr>]"
       and amount = 250
       and addr = "\<lparr>street = ''1 Main St'', city = ''Mumbai'', state = ''MH'',
               zipCode = ''400001''\<rparr>"
       and d = "\<lparr>products = [\<lparr>prod_id = ''00000000-0000-4000-8000-000000000001'',
               length_mm = Some 300, width_mm = Some 300, box_moq = Some 1,
               stock = Some 20\<rparr>,
               \<lparr>prod_id = ''00000000-0000-4000-8000-000000000002'',
               length_mm = Some 300, width_mm = Some 300, box_moq = Some 1,
               stock = Some 0\<rparr>], orders = [], admin_notifications = []\<rparr>"
       and prods = "[\<lparr>prod_id = ''00000000-0000-4000-8000-000000000001'',
               length_mm = Some 300, width_mm = Some 300, box_moq = Some 1,
               stock = Some 20\<rparr>,
               \<lparr>prod_id = ''00000000-0000-4000-8000-000000000002'',
               length_mm = Some 300, width_mm = Some 300, box_moq = Some 1,
               stock = Some 0\<rparr>]"
       and pre = "[\<lparr>product_id = ''00000000-0000-4000-8000-000000000001'',
               quantity = Some (Num 5), coverage = None\<rparr>]"
       and bad = "\<lparr>product_id = ''00000000-0000-4000-8000-000000000002'',
               quantity = Some (Num 1), coverage = None\<rparr>"
       and post = "[]"
       and ps_failed = "[\<lparr>prod_id = ''00000000-0000-4000-8000-000000000001'',
               length_mm = Some 300, width_mm = Some 300, box_moq = Some 1,
               stock = Some 15\<rparr>,
               \<lparr>prod_id = ''00000000-0000-4000-8000-000000000002'',
               length_mm = Some 300, width_mm = Some 300, box_moq = Some 1,
               stock = Some 0\<rparr>]"
       and stockError = "Insufficient_stock ''00000000-0000-4000-8000-000000000002''"]
  show ?thesis
    using t
    by (simp add: validateOrder_def failing_def notEmpty_def select_products_def
        adjustedItems_def adjust_item_def update_product_stock_def
        row_matches_def row_overflows_def decrement_row_def
        int4_max_def int4_min_def Let_def)
qed

text \<open>
  Claim C10. On the success path the order row that is persisted is the order returned to
  the caller, its items are the adjusted items, the stock loop ran on exactly these items
  and every call succeeded, and (the \<^verbatim>\<open>id\<close> being a key) the stock of every product
  has gone down by exactly the quantities of the persisted lines for it.
\<close>

theorem C10_order_and_stock_agree:
  assumes "post_order isUUID env userId body d = (Created ord, d')"
    and "distinct (map prod_id (products d))"
  shows "orders d' = orders d @ [ord]
         \<and> (\<exists>its. items body = Some its \<and>
                order_items ord =
                  adjustedItems
                    (filter (\<lambda>p. prod_id p \<in> set (map product_id its)) (products d)) its)
         \<and> stock_loop (products d) (order_items ord) = (None, products d')
         \<and> (\<forall>pid. map_option of_int (stock_of (products d') pid)
                  = map_option (\<lambda>s. of_int s - ordered_quantity (order_items ord) pid)
                      (stock_of (products d) pid))"
proof -
  obtain its amount addr prods ps' where
    i: "items body = Some its" and
    s: "select_products env d (map product_id its) = Inr prods" and
    r: "ord = \<lparr>order_id = generated_id env, user_id = userId,
                  order_items = adjustedItems prods its, total_amount = amount,
                  shipping_address = addr, status = Pending,
                  payment_status = Payment_pending\<rparr>" and
    l: "stock_loop (products d) (adjustedItems prods its) = (None, ps')" and
    d': "d' = notify_admin (d\<lparr>orders := orders d @ [ord], products := ps'\<rparr>) userId
                  (generated_id env)"
    using post_order_created[OF assms(1)] by blast
  have prods: "prods = filter (\<lambda>p. prod_id p \<in> set (map product_id its)) (products d)"
    using s by (auto simp: select_products_def split: option.splits)
  have oi: "order_items ord = adjustedItems prods its" using r by simp
  have o: "orders d' = orders d @ [ord]" using d' by (simp add: notify_admin_def)
  have p: "products d' = ps'" using d' by simp
  have "\<forall>pid. map_option of_int (stock_of ps' pid)
                  = map_option (\<lambda>s. of_int s - ordered_quantity (adjustedItems prods its) pid)
                      (stock_of (products d) pid)"
    using stock_loop_deducts[OF assms(2) l] by blast
  then show ?thesis using o p l i oi prods by simp
qed

theorem C10_order_and_stock_agree_witness:
  "stock_loop [\<lparr>prod_id = ''00000000-0000-4000-8000-000000000001'', length_mm = Some 300,
      width_mm = Some 300, box_moq = Some 10, stock = Some 500\<rparr>]
     [\<lparr>product_id = ''00000000-0000-4000-8000-000000000001'',
      quantity = Some (Num 110), coverage = Some 100\<rparr>]
   = (None, [\<lparr>prod_id = ''00000000-0000-4000-8000-000000000001'', length_mm = Some 300,
      width_mm = Some 300, box_moq = Some 10, stock = Some 390\<rparr>])
   \<and> stock_of [\<lparr>prod_id = ''00000000-0000-4000-8000-000000000001'', length_mm = Some 300,
      width_mm = Some 300, box_moq = Some 10, stock = Some 390\<rparr>] ''00000000-0000-4000-8000-000000000001'' = Some 390"
proof -
  have c1: "\<lceil>2500000 / 24219 :: rat\<rceil> = 104" by (rule ceiling_unique) simp_all
  have c2: "\<lceil>52 / 5 :: rat\<rceil> = 11" by (rule ceiling_unique) simp_all
  have run: "post_order (\<lambda>s. length s = 36)
       \<lparr>generated_id = ''00000000-0000-4000-8000-0000000000aa'',
        productError = None, orderError = None\<rparr>
       ''00000000-0000-4000-8000-0000000000bb''
       \<lparr>items = Some [\<lparr>product_id = ''00000000-0000-4000-8000-000000000001'',
        quantity = Some (Num 5), coverage = Some 100\<rparr>], totalAmount = Some 250,
        shippingAddress = Some \<lparr>street = ''1 Main St'', city = ''Mumbai'',
        state = ''MH'', zipCode = ''400001''\<rparr>\<rparr>
       \<lparr>products = [\<lparr>prod_id = ''00000000-0000-4000-8000-000000000001'',
        length_mm = Some 300, width_mm = Some 300, box_moq = Some 10,
        stock = Some 500\<rparr>], orders = [], admin_notifications = []\<rparr>
     = (Created
          \<lparr>order_id = ''00000000-0000-4000-8000-0000000000aa'',
          user_id = ''00000000-0000-4000-8000-0000000000bb'',
          order_items = [\<lparr>product_id = ''00000000-0000-4000-8000-000000000001'',
          quantity = Some (Num 110), coverage = Some 100\<rparr>], total_amount = 250,
          shipping_address = \<lparr>street = ''1 Main St'', city = ''Mumbai'',
          state = ''MH'', zipCode = ''400001''\<rparr>, status = Pending,
          payment_status = Payment_pending\<rparr>,
        \<lparr>products = [\<lparr>prod_id = ''00000000-0000-4000-8000-000000000001'',
        length_mm = Some 300, width_mm = Some 300, box_moq = Some 10,
        stock = Some 390\<rparr>],
        orders = [\<lparr>order_id = ''00000000-0000-4000-8000-0000000000aa'',
        user_id = ''00000000-0000-4000-8000-0000000000bb'',
        order_items = [\<lparr>product_id = ''00000000-0000-4000-8000-000000000001'',
        quantity = Some (Num 110), coverage = Some 100\<rparr>], total_amount = 250,
        shipping_address = \<lparr>street = ''1 Main St'', city = ''Mumbai'',
        state = ''MH'', zipCode = ''400001''\<rparr>, status = Pending,
        payment_status = Payment_pending\<rparr>],
        admin_notifications = [\<lparr>notification_type = ''new_order'',
        notification_user_id = ''00000000-0000-4000-8000-0000000000bb'',
        content = ''New order #00000000-0000-4000-8000-0000000000aa created'',
        notification_status = ''unread''\<rparr>]\<rparr>)"
    using c1 c2
    by (simp add: post_order_def validateOrder_def failing_def notEmpty_def
        select_products_def adjustedItems_def adjust_item_def calculateTileQuantity_def
        tileArea_def insert_order_def update_product_stock_def row_matches_def
        row_overflows_def decrement_row_def notify_admin_def int4_max_def int4_min_def
        Let_def)
  have key: "distinct (map prod_id (products
       \<lparr>products = [\<lparr>prod_id = ''00000000-0000-4000-8000-000000000001'',
        length_mm = Some 300, width_mm = Some 300, box_moq = Some 10,
        stock = Some 500\<rparr>], orders = [], admin_notifications = []\<rparr>))"
    by simp
  note t = C10_order_and_stock_agree [OF run key]
  show ?thesis
    using t [THEN conjunct2, THEN conjunct2, THEN conjunct1]
    by (simp add: stock_of_def)
qed

end
